theory Spec2Isabelle
  imports Main
begin

section \<open>Data model (src/app.py, MODELS)\<close>

text \<open>
  The five tables of the application. Every column of the source is a field; the
  Python attribute \<open>id\<close> is prefixed with the table name because record fields
  share one name space. A table is the list of its rows in insertion order, so that
  \<open>.first()\<close> and \<open>.all()\<close> are \<open>find\<close> and \<open>filter\<close>.
  \<open>Lesson.content\<close> is the one attribute the handlers may set to \<open>None\<close>
  (\<open>request.form.get("content")\<close>), so it is an option here and the NOT NULL
  constraint of the column is checked by the insert.
\<close>

record user =
  user_id :: int
  user_name :: string
  user_email :: string
  user_password :: string
  user_role :: string

record course =
  course_id :: int
  course_title :: string
  course_description :: string
  course_teacher_id :: int

record enrollment =
  enrollment_id :: int
  enrollment_student_id :: int
  enrollment_course_id :: int

record lesson =
  lesson_id :: int
  lesson_title :: string
  lesson_content :: "string option"
  lesson_course_id :: int

record lesson_file =
  lesson_file_id :: int
  lesson_file_filename :: string
  lesson_file_lesson_id :: int

record database =
  users :: "user list"
  courses :: "course list"
  enrollments :: "enrollment list"
  lessons :: "lesson list"
  lesson_files :: "lesson_file list"

text \<open>
  What the operations on rows and on the upload folder did, in order. The log is a
  ghost field: no handler reads it.
\<close>

datatype effect =
    RemoveBytes string
  | DeleteFileRow int
  | DeleteLessonRow int

text \<open>
  The state outside one request: the committed database, the upload folder
  (\<open>UPLOAD_FOLDER\<close>, a flat directory: file name to bytes) and the effect log.
\<close>

record world =
  db :: database
  uploads :: "string \<rightharpoonup> string"
  effects :: "effect list"

text \<open>The three keys the handlers keep in the Flask session.\<close>

record sess =
  sess_user_id :: "int option"
  sess_user_name :: "string option"
  sess_user_role :: "string option"

text \<open>
  The library functions the source imports and whose bodies are not part of the
  repository: \<open>werkzeug.security.check_password_hash\<close> (stored hash, password),
  \<open>werkzeug.utils.secure_filename\<close>; whether the operating system refuses to write
  a given file of the upload folder; and whether the database refuses to store a file
  row with a given file name and lesson id (a locked or a full database).
\<close>

record env =
  check_password_hash :: "string \<Rightarrow> string \<Rightarrow> bool"
  secure_filename :: "string \<Rightarrow> string"
  write_refused :: "string \<Rightarrow> bool"
  file_row_refused :: "string \<Rightarrow> int \<Rightarrow> bool"

datatype meth = GET | POST

datatype exn =
    KeyError | AttributeError | IntegrityError | OSError | OverflowError | OperationalError

datatype page =
    LoginPage
  | EditCoursePage course
  | AllCoursesPage "course list" "int list"
  | CourseDetailPage course bool "user option list"
  | AddLessonPage course

text \<open>
  What a handler returns: a redirect to an endpoint (with the messages flashed before
  it and the \<open>course_id\<close> argument of \<open>url_for\<close> when there is one), a rendered
  page with the values passed to the template, the bytes of a file, an HTTP error
  raised by \<open>abort\<close> (404 of \<open>get_or_404\<close> and \<open>send_from_directory\<close>, 400 of a
  missing form key), or an exception that no handler catches (a 500 response).
\<close>

datatype response =
    Redirect "string list" string "int option"
  | Render page
  | SendFile string
  | Abort nat
  | Crash exn

section \<open>Decorators\<close>

text \<open>\<open>not session.get("user_id")\<close>: the key is missing or the id is 0.\<close>

definition no_user_id :: "sess \<Rightarrow> bool" where
  "no_user_id ss = (case sess_user_id ss of None \<Rightarrow> True | Some i \<Rightarrow> i = 0)"

text \<open>
  A decorator either answers by itself (\<open>Some\<close> of its redirect) or calls the
  handler (\<open>None\<close>).
\<close>

definition login_required :: "sess \<Rightarrow> response option" where
  "login_required ss =
     (if no_user_id ss then Some (Redirect [''Please login first''] ''login'' None)
      else None)"

definition teacher_required :: "sess \<Rightarrow> response option" where
  "teacher_required ss =
     (if no_user_id ss then Some (Redirect [''Please login first''] ''login'' None)
      else if sess_user_role ss \<noteq> Some ''teacher''
        then Some (Redirect [''Teachers only''] ''dashboard'' None)
      else None)"

section \<open>Authentication (src/app.py, login)\<close>

definition login ::
  "env \<Rightarrow> meth \<Rightarrow> (string \<rightharpoonup> string) \<Rightarrow> sess \<Rightarrow> world \<Rightarrow> response \<times> sess" where
  "login ev m form ss w =
     (case m of
        GET \<Rightarrow> (Render LoginPage, ss)
      | POST \<Rightarrow>
          (case form ''email'' of
             None \<Rightarrow> (Abort 400, ss)
           | Some email \<Rightarrow>
               (case find (\<lambda>u. user_email u = email) (users (db w)) of
                  None \<Rightarrow> (Redirect [''Invalid credentials''] ''login'' None, ss)
                | Some u \<Rightarrow>
                    (case form ''password'' of
                       None \<Rightarrow> (Abort 400, ss)
                     | Some pw \<Rightarrow>
                         if \<not> check_password_hash ev (user_password u) pw
                         then (Redirect [''Invalid credentials''] ''login'' None, ss)
                         else (Redirect [] ''dashboard'' None,
                               \<lparr>sess_user_id = Some (user_id u),
                                sess_user_name = Some (user_name u),
                                sess_user_role = Some (user_role u)\<rparr>)))))"

section \<open>Queries and the unit of work\<close>

text \<open>
  The SQLite driver binds a Python integer as a signed 64-bit value and raises
  \<open>OverflowError\<close> for any other integer. The \<open><int:...>\<close> routes accept every
  non-negative number, so a statement that binds an id of the URL can raise it; no
  handler catches it.
\<close>

definition sqlite_int :: "int \<Rightarrow> bool" where
  "sqlite_int i = (- (2 ^ 63) \<le> i \<and> i < 2 ^ 63)"

text \<open>
  \<open>Model.query.get(id)\<close>, the lookup behind \<open>get_or_404\<close>, \<open>lesson.course\<close> and
  \<open>e.student\<close>: the exception of the driver, or the row of that key if there is one.
\<close>

definition get_course :: "database \<Rightarrow> int \<Rightarrow> exn + course option" where
  "get_course d cid =
     (if sqlite_int cid then Inr (find (\<lambda>c. course_id c = cid) (courses d))
      else Inl OverflowError)"

definition get_lesson :: "database \<Rightarrow> int \<Rightarrow> exn + lesson option" where
  "get_lesson d lid =
     (if sqlite_int lid then Inr (find (\<lambda>l. lesson_id l = lid) (lessons d))
      else Inl OverflowError)"

definition get_user :: "database \<Rightarrow> int \<Rightarrow> exn + user option" where
  "get_user d uid =
     (if sqlite_int uid then Inr (find (\<lambda>u. user_id u = uid) (users d))
      else Inl OverflowError)"

text \<open>
  The relationship collections \<open>lesson.files\<close>, \<open>course.lessons\<close>, \<open>course.enrollments\<close>
  and the query \<open>Enrollment.query.filter_by(course_id=course.id).all()\<close>. They bind the
  key of a row that a lookup has just returned, which the driver accepted then.
\<close>

definition lesson_files_of :: "database \<Rightarrow> lesson \<Rightarrow> lesson_file list" where
  "lesson_files_of d l = filter (\<lambda>f. lesson_file_lesson_id f = lesson_id l) (lesson_files d)"

definition course_lessons :: "database \<Rightarrow> course \<Rightarrow> lesson list" where
  "course_lessons d c = filter (\<lambda>l. lesson_course_id l = course_id c) (lessons d)"

definition course_enrollments :: "database \<Rightarrow> course \<Rightarrow> enrollment list" where
  "course_enrollments d c = filter (\<lambda>e. enrollment_course_id e = course_id c) (enrollments d)"

text \<open>
  \<open>Enrollment.query.filter_by(student_id=..., course_id=...).first()\<close> and
  \<open>Enrollment.query.filter_by(student_id=...).all()\<close>. Both bind the id of the session,
  the first one also the id of the URL.
\<close>

definition find_enrollment :: "database \<Rightarrow> int \<Rightarrow> int \<Rightarrow> exn + enrollment option" where
  "find_enrollment d sid cid =
     (if sqlite_int sid \<and> sqlite_int cid
      then Inr (find (\<lambda>e. enrollment_student_id e = sid \<and> enrollment_course_id e = cid)
                  (enrollments d))
      else Inl OverflowError)"

definition enrollments_of_student :: "database \<Rightarrow> int \<Rightarrow> exn + enrollment list" where
  "enrollments_of_student d sid =
     (if sqlite_int sid then Inr (filter (\<lambda>e. enrollment_student_id e = sid) (enrollments d))
      else Inl OverflowError)"

text \<open>
  \<open>[e.student for e in ...]\<close>: one lookup of a user for each enrollment, in order; the
  first exception ends the comprehension.
\<close>

fun load_students :: "database \<Rightarrow> enrollment list \<Rightarrow> exn + user option list" where
  "load_students d [] = Inr []"
| "load_students d (e # es) =
     (case get_user d (enrollment_student_id e) of
        Inl x \<Rightarrow> Inl x
      | Inr u \<Rightarrow> (case load_students d es of Inl x \<Rightarrow> Inl x | Inr us \<Rightarrow> Inr (u # us)))"

text \<open>
  The key of an inserted row: an \<open>INTEGER PRIMARY KEY\<close> of SQLite is one more than
  the largest key of the table, 1 in an empty table.
\<close>

definition next_id :: "int list \<Rightarrow> int" where
  "next_id ids = (if ids = [] then 1 else Max (set ids) + 1)"

text \<open>
  \<open>db.session.add(Enrollment(...)); db.session.commit()\<close>. Both columns are given,
  the driver has accepted the two ids in the SELECT before, and the database of the
  application (\<open>sqlite:///lms.db\<close>, no pragma) does not enforce foreign keys, so the
  insert has no failing branch.
\<close>

definition insert_enrollment :: "database \<Rightarrow> int \<Rightarrow> int \<Rightarrow> database" where
  "insert_enrollment d sid cid =
     d\<lparr>enrollments := enrollments d @
        [\<lparr>enrollment_id = next_id (map enrollment_id (enrollments d)),
          enrollment_student_id = sid, enrollment_course_id = cid\<rparr>]\<rparr>"

text \<open>
  \<open>db.session.add(Lesson(...)); db.session.commit()\<close>. The column \<open>content\<close> is
  declared \<open>nullable=False\<close>: a lesson whose content is \<open>None\<close> is rejected by the
  database and the commit raises \<open>IntegrityError\<close>. The inserted row is returned
  because the handler reads \<open>lesson.id\<close> afterwards.
\<close>

definition insert_lesson ::
  "database \<Rightarrow> string \<Rightarrow> string option \<Rightarrow> int \<Rightarrow> exn + (lesson \<times> database)" where
  "insert_lesson d title content cid =
     (if content = None then Inl IntegrityError
      else let l = \<lparr>lesson_id = next_id (map lesson_id (lessons d)), lesson_title = title,
                     lesson_content = content, lesson_course_id = cid\<rparr>
           in Inr (l, d\<lparr>lessons := lessons d @ [l]\<rparr>))"

text \<open>
  \<open>db.session.add(LessonFile(...)); db.session.commit()\<close>. Both columns are given, so
  no constraint can reject the row; the commit fails only when the database itself
  refuses the write (\<open>file_row_refused\<close>), and then it raises \<open>OperationalError\<close>.
\<close>

definition insert_lesson_file :: "env \<Rightarrow> database \<Rightarrow> string \<Rightarrow> int \<Rightarrow> exn + database" where
  "insert_lesson_file ev d filename lid =
     (if file_row_refused ev filename lid then Inl OperationalError
      else Inr (d\<lparr>lesson_files := lesson_files d @
                  [\<lparr>lesson_file_id = next_id (map lesson_file_id (lesson_files d)),
                    lesson_file_filename = filename, lesson_file_lesson_id = lid\<rparr>]\<rparr>))"

text \<open>\<open>course.title = ...; course.description = ...; db.session.commit()\<close>: an UPDATE by key.\<close>

definition update_course :: "database \<Rightarrow> int \<Rightarrow> string \<Rightarrow> string \<Rightarrow> database" where
  "update_course d cid title description =
     d\<lparr>courses := map (\<lambda>c. if course_id c = cid
                              then c\<lparr>course_title := title, course_description := description\<rparr>
                              else c) (courses d)\<rparr>"

text \<open>
  \<open>db.session.delete(course); db.session.commit()\<close>. The collections
  \<open>course.lessons\<close> and \<open>course.enrollments\<close> are backrefs declared without a delete
  cascade, so the unit of work detaches each member by setting its \<open>course_id\<close> to
  NULL before it deletes the course row. Both columns are \<open>nullable=False\<close>: with a
  lesson or an enrollment of the course present the flush raises \<open>IntegrityError\<close>
  and the transaction is rolled back. The function has no step on the upload folder.
\<close>

definition session_delete_course :: "database \<Rightarrow> course \<Rightarrow> exn + database" where
  "session_delete_course d c =
     (if course_lessons d c = [] \<and> course_enrollments d c = []
      then Inr (d\<lparr>courses := filter (\<lambda>x. course_id x \<noteq> course_id c) (courses d)\<rparr>)
      else Inl IntegrityError)"

text \<open>The two DELETE statements by key that deleting a lesson issues, each logged.\<close>

definition sql_delete_file_row :: "int \<Rightarrow> world \<Rightarrow> world" where
  "sql_delete_file_row i w =
     w\<lparr>db := (db w)\<lparr>lesson_files := filter (\<lambda>f. lesson_file_id f \<noteq> i) (lesson_files (db w))\<rparr>,
       effects := effects w @ [DeleteFileRow i]\<rparr>"

definition sql_delete_lesson_row :: "int \<Rightarrow> world \<Rightarrow> world" where
  "sql_delete_lesson_row i w =
     w\<lparr>db := (db w)\<lparr>lessons := filter (\<lambda>l. lesson_id l \<noteq> i) (lessons (db w))\<rparr>,
       effects := effects w @ [DeleteLessonRow i]\<rparr>"

text \<open>
  \<open>db.session.delete(lesson); db.session.commit()\<close>. \<open>lesson.files\<close> is declared with
  \<open>cascade="all, delete-orphan"\<close>: the unit of work deletes every file row of the
  lesson, then the lesson row.
\<close>

definition session_delete_lesson :: "lesson \<Rightarrow> world \<Rightarrow> world" where
  "session_delete_lesson l w =
     sql_delete_lesson_row (lesson_id l)
       (fold sql_delete_file_row (map lesson_file_id (lesson_files_of (db w) l)) w)"

section \<open>The upload folder\<close>

text \<open>
  \<open>file.save(os.path.join(UPLOAD_FOLDER, filename))\<close>: the write either raises (the
  operating system refuses the path, as it does for the empty name, which is the folder
  itself) or replaces whatever the folder held under that name.
\<close>

definition file_save :: "env \<Rightarrow> string \<Rightarrow> string \<Rightarrow> world \<Rightarrow> exn + world" where
  "file_save ev filename bytes w =
     (if write_refused ev filename then Inl OSError
      else Inr (w\<lparr>uploads := (uploads w)(filename \<mapsto> bytes)\<rparr>))"

text \<open>\<open>os.remove(file_path)\<close> of a file that exists.\<close>

definition os_remove :: "string \<Rightarrow> world \<Rightarrow> world" where
  "os_remove filename w =
     w\<lparr>uploads := (uploads w)(filename := None), effects := effects w @ [RemoveBytes filename]\<rparr>"

text \<open>
  The loop \<open>for file in lesson.files: if os.path.exists(file_path): os.remove(file_path)\<close>.
\<close>

fun remove_physical_files :: "lesson_file list \<Rightarrow> world \<Rightarrow> world" where
  "remove_physical_files [] w = w"
| "remove_physical_files (f # fs) w =
     remove_physical_files fs
       (if uploads w (lesson_file_filename f) \<noteq> None then os_remove (lesson_file_filename f) w
        else w)"

section \<open>Course handlers (src/app.py, edit_course, delete_course)\<close>

definition edit_course ::
  "meth \<Rightarrow> (string \<rightharpoonup> string) \<Rightarrow> sess \<Rightarrow> int \<Rightarrow> world \<Rightarrow> response \<times> world" where
  "edit_course m form ss cid w =
     (case teacher_required ss of
        Some r \<Rightarrow> (r, w)
      | None \<Rightarrow>
          (case get_course (db w) cid of
             Inl e \<Rightarrow> (Crash e, w)
           | Inr None \<Rightarrow> (Abort 404, w)
           | Inr (Some c) \<Rightarrow>
               if Some (course_teacher_id c) \<noteq> sess_user_id ss
               then (Redirect [''Not allowed''] ''teacher_courses'' None, w)
               else (case m of
                       GET \<Rightarrow> (Render (EditCoursePage c), w)
                     | POST \<Rightarrow>
                         (case form ''title'' of
                            None \<Rightarrow> (Abort 400, w)
                          | Some t \<Rightarrow>
                              (case form ''description'' of
                                 None \<Rightarrow> (Abort 400, w)
                               | Some dsc \<Rightarrow>
                                   (Redirect [] ''teacher_courses'' None,
                                    w\<lparr>db := update_course (db w) cid t dsc\<rparr>))))))"

definition delete_course :: "sess \<Rightarrow> int \<Rightarrow> world \<Rightarrow> response \<times> world" where
  "delete_course ss cid w =
     (case teacher_required ss of
        Some r \<Rightarrow> (r, w)
      | None \<Rightarrow>
          (case get_course (db w) cid of
             Inl e \<Rightarrow> (Crash e, w)
           | Inr None \<Rightarrow> (Abort 404, w)
           | Inr (Some c) \<Rightarrow>
               if Some (course_teacher_id c) \<noteq> sess_user_id ss
               then (Redirect [''Not allowed''] ''teacher_courses'' None, w)
               else (case session_delete_course (db w) c of
                       Inl e \<Rightarrow> (Crash e, w)
                     | Inr d \<Rightarrow> (Redirect [] ''teacher_courses'' None, w\<lparr>db := d\<rparr>))))"

section \<open>Enrollment handlers (src/app.py, all_courses, enroll)\<close>

text \<open>
  \<open>session["user_role"]\<close> and \<open>session["user_id"]\<close> raise \<open>KeyError\<close> on a missing
  key; after \<open>login_required\<close> the id is present, the branch is kept for the type.
\<close>

definition all_courses :: "sess \<Rightarrow> world \<Rightarrow> response" where
  "all_courses ss w =
     (case login_required ss of
        Some r \<Rightarrow> r
      | None \<Rightarrow>
          (case sess_user_role ss of
             None \<Rightarrow> Crash KeyError
           | Some role \<Rightarrow>
               if role \<noteq> ''student'' then Redirect [] ''dashboard'' None
               else (case sess_user_id ss of
                       None \<Rightarrow> Crash KeyError
                     | Some sid \<Rightarrow>
                         (case enrollments_of_student (db w) sid of
                            Inl e \<Rightarrow> Crash e
                          | Inr es \<Rightarrow>
                              Render (AllCoursesPage (courses (db w))
                                        (map enrollment_course_id es))))))"

definition enroll :: "sess \<Rightarrow> int \<Rightarrow> world \<Rightarrow> response \<times> world" where
  "enroll ss cid w =
     (case login_required ss of
        Some r \<Rightarrow> (r, w)
      | None \<Rightarrow>
          (case sess_user_role ss of
             None \<Rightarrow> (Crash KeyError, w)
           | Some role \<Rightarrow>
               if role \<noteq> ''student'' then (Redirect [] ''dashboard'' None, w)
               else (case sess_user_id ss of
                       None \<Rightarrow> (Crash KeyError, w)
                     | Some sid \<Rightarrow>
                         (case find_enrollment (db w) sid cid of
                            Inl e \<Rightarrow> (Crash e, w)
                          | Inr (Some e) \<Rightarrow> (Redirect [] ''all_courses'' None, w)
                          | Inr None \<Rightarrow>
                              (Redirect [] ''all_courses'' None,
                               w\<lparr>db := insert_enrollment (db w) sid cid\<rparr>)))))"

section \<open>Course detail (src/app.py, course_detail)\<close>

text \<open>
  The value of \<open>enrolled\<close> in the student branch:
  \<open>Enrollment.query.filter_by(student_id=session["user_id"], course_id=course.id).first()
  is not None\<close>.
\<close>

definition is_enrolled :: "sess \<Rightarrow> database \<Rightarrow> course \<Rightarrow> exn + bool" where
  "is_enrolled ss d c =
     (case sess_user_id ss of
        None \<Rightarrow> Inl KeyError
      | Some uid \<Rightarrow>
          (case find_enrollment d uid (course_id c) of
             Inl e \<Rightarrow> Inl e
           | Inr r \<Rightarrow> Inr (r \<noteq> None)))"

text \<open>
  \<open>enrolled\<close> and \<open>students\<close> start as \<open>False\<close> and \<open>[]\<close>; the first \<open>if\<close> sets
  \<open>enrolled\<close> for the role \<open>student\<close>, the second sets \<open>students\<close> for the role
  \<open>teacher\<close>. \<open>e.student\<close> is the user row the enrollment points to, \<open>None\<close> when
  there is none.
\<close>

definition course_detail :: "sess \<Rightarrow> int \<Rightarrow> world \<Rightarrow> response" where
  "course_detail ss cid w =
     (case login_required ss of
        Some r \<Rightarrow> r
      | None \<Rightarrow>
          (case get_course (db w) cid of
             Inl e \<Rightarrow> Crash e
           | Inr None \<Rightarrow> Abort 404
           | Inr (Some c) \<Rightarrow>
               (case sess_user_role ss of
                  None \<Rightarrow> Crash KeyError
                | Some role \<Rightarrow>
                    (case (if role = ''student'' then is_enrolled ss (db w) c else Inr False) of
                       Inl e \<Rightarrow> Crash e
                     | Inr enrolled \<Rightarrow>
                         (case (if role = ''teacher''
                                then load_students (db w) (course_enrollments (db w) c)
                                else Inr []) of
                            Inl e \<Rightarrow> Crash e
                          | Inr students \<Rightarrow>
                              Render (CourseDetailPage c enrolled students))))))"

section \<open>Lesson handlers (src/app.py, add_lesson, delete_lesson, uploaded_file)\<close>

text \<open>
  \<open>file\<close> is \<open>request.files.get("file")\<close>: \<open>None\<close>, or the client's file name and the
  bytes. An exception after the first commit leaves that commit in the database, and an
  exception of the second commit leaves the bytes that were written in the folder.
\<close>

definition add_lesson ::
  "env \<Rightarrow> meth \<Rightarrow> (string \<rightharpoonup> string) \<Rightarrow> (string \<times> string) option \<Rightarrow> sess \<Rightarrow> int \<Rightarrow> world
     \<Rightarrow> response \<times> world" where
  "add_lesson ev m form file ss cid w =
     (case teacher_required ss of
        Some r \<Rightarrow> (r, w)
      | None \<Rightarrow>
          (case get_course (db w) cid of
             Inl e \<Rightarrow> (Crash e, w)
           | Inr None \<Rightarrow> (Abort 404, w)
           | Inr (Some c) \<Rightarrow>
               if Some (course_teacher_id c) \<noteq> sess_user_id ss
               then (Redirect [] ''teacher_courses'' None, w)
               else (case m of
                       GET \<Rightarrow> (Render (AddLessonPage c), w)
                     | POST \<Rightarrow>
                         (case form ''title'' of
                            None \<Rightarrow> (Abort 400, w)
                          | Some t \<Rightarrow>
                              (case insert_lesson (db w) t (form ''content'') (course_id c) of
                                 Inl e \<Rightarrow> (Crash e, w)
                               | Inr (l, d1) \<Rightarrow>
                                   let w1 = w\<lparr>db := d1\<rparr>;
                                       back = Redirect [] ''course_detail'' (Some (course_id c))
                                   in (case file of
                                         None \<Rightarrow> (back, w1)
                                       | Some (fname, bytes) \<Rightarrow>
                                           if fname = [] then (back, w1)
                                           else let filename = secure_filename ev fname
                                                in (case file_save ev filename bytes w1 of
                                                      Inl e \<Rightarrow> (Crash e, w1)
                                                    | Inr w2 \<Rightarrow>
                                                        (case insert_lesson_file ev (db w2) filename
                                                                (lesson_id l) of
                                                           Inl e \<Rightarrow> (Crash e, w2)
                                                         | Inr d2 \<Rightarrow> (back, w2\<lparr>db := d2\<rparr>)))))))))"

definition delete_lesson :: "sess \<Rightarrow> int \<Rightarrow> world \<Rightarrow> response \<times> world" where
  "delete_lesson ss lid w =
     (case teacher_required ss of
        Some r \<Rightarrow> (r, w)
      | None \<Rightarrow>
          (case get_lesson (db w) lid of
             Inl e \<Rightarrow> (Crash e, w)
           | Inr None \<Rightarrow> (Abort 404, w)
           | Inr (Some l) \<Rightarrow>
               (case get_course (db w) (lesson_course_id l) of
                  Inl e \<Rightarrow> (Crash e, w)
                | Inr None \<Rightarrow> (Crash AttributeError, w)
                | Inr (Some c) \<Rightarrow>
                    if Some (course_teacher_id c) \<noteq> sess_user_id ss
                    then (Redirect [''You cannot delete this lesson''] ''dashboard'' None, w)
                    else (Redirect [''Lesson deleted successfully''] ''course_detail''
                            (Some (course_id c)),
                          session_delete_lesson l
                            (remove_physical_files (lesson_files_of (db w) l) w)))))"

text \<open>\<open>send_from_directory\<close> answers 404 when the folder has no file of that name.\<close>

definition uploaded_file :: "sess \<Rightarrow> string \<Rightarrow> world \<Rightarrow> response" where
  "uploaded_file ss filename w =
     (case login_required ss of
        Some r \<Rightarrow> r
      | None \<Rightarrow> (case uploads w filename of None \<Rightarrow> Abort 404 | Some bytes \<Rightarrow> SendFile bytes))"

section \<open>A sample deployment\<close>

text \<open>
  Two teachers and a student; one course of the first teacher with the student enrolled;
  two lessons that both carry an attachment named \<open>notes.pdf\<close>, the first one also an
  attachment whose bytes are no longer in the folder.
\<close>

definition alice :: user where
  "alice = \<lparr>user_id = 1, user_name = ''alice'', user_email = ''alice@school.org'',
            user_password = ''hash-a'', user_role = ''teacher''\<rparr>"

definition bob :: user where
  "bob = \<lparr>user_id = 2, user_name = ''bob'', user_email = ''bob@school.org'',
          user_password = ''hash-b'', user_role = ''teacher''\<rparr>"

definition carol :: user where
  "carol = \<lparr>user_id = 3, user_name = ''carol'', user_email = ''carol@school.org'',
            user_password = ''hash-c'', user_role = ''student''\<rparr>"

definition algebra :: course where
  "algebra = \<lparr>course_id = 1, course_title = ''Algebra'', course_description = ''Groups'',
              course_teacher_id = 1\<rparr>"

definition school_db :: database where
  "school_db =
     \<lparr>users = [alice, bob, carol],
      courses = [algebra],
      enrollments = [\<lparr>enrollment_id = 1, enrollment_student_id = 3, enrollment_course_id = 1\<rparr>],
      lessons =
        [\<lparr>lesson_id = 1, lesson_title = ''Intro'', lesson_content = Some ''Welcome'',
          lesson_course_id = 1\<rparr>,
         \<lparr>lesson_id = 2, lesson_title = ''Rings'', lesson_content = Some [],
          lesson_course_id = 1\<rparr>],
      lesson_files =
        [\<lparr>lesson_file_id = 1, lesson_file_filename = ''notes.pdf'', lesson_file_lesson_id = 1\<rparr>,
         \<lparr>lesson_file_id = 2, lesson_file_filename = ''notes.pdf'', lesson_file_lesson_id = 2\<rparr>,
         \<lparr>lesson_file_id = 3, lesson_file_filename = ''gone.pdf'', lesson_file_lesson_id = 1\<rparr>]\<rparr>"

definition school :: world where
  "school = \<lparr>db = school_db, uploads = [''notes.pdf'' \<mapsto> ''PDF-bytes''], effects = []\<rparr>"

definition session_of :: "user \<Rightarrow> sess" where
  "session_of u = \<lparr>sess_user_id = Some (user_id u), sess_user_name = Some (user_name u),
                   sess_user_role = Some (user_role u)\<rparr>"

text \<open>
  An environment: the stored hash is the password behind a prefix, file names pass
  unchanged, the one name the operating system refuses is the empty one, and the
  database stores every file row.
\<close>

definition plain_env :: env where
  "plain_env = \<lparr>check_password_hash = (\<lambda>h p. h = ''hash-'' @ p),
                secure_filename = (\<lambda>n. n),
                write_refused = (\<lambda>n. n = []),
                file_row_refused = (\<lambda>n i. False)\<rparr>"

section \<open>Auxiliary facts\<close>

lemmas sample_defs = school_def school_db_def algebra_def alice_def bob_def carol_def
  session_of_def plain_env_def

lemma teacher_required_pass:
  "sess_user_id ss = Some t \<Longrightarrow> t \<noteq> 0 \<Longrightarrow> sess_user_role ss = Some ''teacher''
     \<Longrightarrow> teacher_required ss = None"
  by (simp add: teacher_required_def no_user_id_def)

lemma login_required_pass:
  "sess_user_id ss = Some t \<Longrightarrow> t \<noteq> 0 \<Longrightarrow> login_required ss = None"
  by (simp add: login_required_def no_user_id_def)

lemma find_None_filter: "find P xs = None \<Longrightarrow> filter P xs = []"
  by (induction xs) (auto split: if_splits)

lemma find_Some_filter: "find P xs = Some x \<Longrightarrow> filter P xs \<noteq> []"
  by (induction xs) (auto split: if_splits)

lemma find_append:
  "find P (xs @ ys) = (case find P xs of None \<Rightarrow> find P ys | Some x \<Rightarrow> Some x)"
  by (induction xs) simp_all

lemma find_SomeD: "find P xs = Some x \<Longrightarrow> P x \<and> x \<in> set xs"
  by (induction xs) (auto split: if_splits)

lemma find_filter_None: "find P (filter (\<lambda>x. \<not> P x) xs) = None"
  by (induction xs) simp_all

lemma sqlite_int_small [simp]: "sqlite_int 1" "sqlite_int 2" "sqlite_int 3" "sqlite_int 5"
  "sqlite_int 7" "sqlite_int 99"
  by (simp_all add: sqlite_int_def)

lemma get_course_absent:
  "sqlite_int cid \<Longrightarrow> cid \<notin> course_id ` set (courses d) \<Longrightarrow> get_course d cid = Inr None"
  by (auto simp: get_course_def find_None_iff)

lemma get_lessonD: "get_lesson d lid = Inr (Some l) \<Longrightarrow> lesson_id l = lid \<and> sqlite_int lid"
  by (auto simp: get_lesson_def split: if_splits dest: find_SomeD)

section \<open>Authentication\<close>

text \<open>
  C8. Two failing logins, one with an email no user has and one with the email of a
  user whose stored hash does not verify the password, give the caller the same
  outcome: the message \<open>Invalid credentials\<close>, a redirect to the login page and an
  unchanged session. (The handler cannot write the database.)
\<close>

theorem login_uniform_failure:
  assumes "form ''email'' = Some email" and "form ''password'' = Some pw"
    and "form' ''email'' = Some email'" and "form' ''password'' = Some pw'"
    and "find (\<lambda>u. user_email u = email) (users (db w)) = None"
    and "find (\<lambda>u. user_email u = email') (users (db w)) = Some u"
    and "\<not> check_password_hash ev (user_password u) pw'"
  shows "login ev POST form ss w = (Redirect [''Invalid credentials''] ''login'' None, ss)
       \<and> login ev POST form' ss w = login ev POST form ss w"
  using assms by (simp add: login_def)

theorem login_uniform_failure_witness:
  "login plain_env POST [''email'' \<mapsto> ''dave@school.org'', ''password'' \<mapsto> ''a'']
       \<lparr>sess_user_id = None, sess_user_name = None, sess_user_role = None\<rparr> school
     = (Redirect [''Invalid credentials''] ''login'' None,
        \<lparr>sess_user_id = None, sess_user_name = None, sess_user_role = None\<rparr>)
   \<and> login plain_env POST [''email'' \<mapsto> ''alice@school.org'', ''password'' \<mapsto> ''b'']
       \<lparr>sess_user_id = None, sess_user_name = None, sess_user_role = None\<rparr> school
     = login plain_env POST [''email'' \<mapsto> ''dave@school.org'', ''password'' \<mapsto> ''a'']
       \<lparr>sess_user_id = None, sess_user_name = None, sess_user_role = None\<rparr> school"
  by (rule login_uniform_failure [where email = "''dave@school.org''" and pw = "''a''"
        and email' = "''alice@school.org''" and pw' = "''b''" and u = alice])
     (simp_all add: sample_defs)

section \<open>Ownership of courses\<close>

text \<open>
  A course id is a key of the database, a signed 64-bit integer. For a larger number
  in the URL neither handler reaches its ownership test: the lookup raises
  \<open>OverflowError\<close> and the state is left as it was.
\<close>

lemma course_ops_overflow:
  assumes "sess_user_id ss = Some t" and "t \<noteq> 0" and "sess_user_role ss = Some ''teacher''"
    and "\<not> sqlite_int cid"
  shows "edit_course m form ss cid w = (Crash OverflowError, w)"
    and "delete_course ss cid w = (Crash OverflowError, w)"
  using assms
  by (simp_all add: edit_course_def delete_course_def teacher_required_pass get_course_def)

text \<open>
  C5. For a logged-in teacher \<open>t\<close>: on a course that the lookup finds and that belongs
  to another teacher, both \<open>edit_course\<close> (whatever the method and the form) and
  \<open>delete_course\<close> answer \<open>Not allowed\<close> and leave the whole state, hence the course,
  as it was; on a course id (a signed 64-bit key) that no row of the course table has,
  both answer 404 and change nothing.
\<close>

theorem course_ops_owner_only:
  assumes "sess_user_id ss = Some t" and "t \<noteq> 0" and "sess_user_role ss = Some ''teacher''"
  shows "(\<forall>c. get_course (db w) cid = Inr (Some c) \<and> course_teacher_id c \<noteq> t \<longrightarrow>
            edit_course m form ss cid w = (Redirect [''Not allowed''] ''teacher_courses'' None, w)
          \<and> delete_course ss cid w = (Redirect [''Not allowed''] ''teacher_courses'' None, w))
       \<and> (sqlite_int cid \<and> cid \<notin> course_id ` set (courses (db w)) \<longrightarrow>
            edit_course m form ss cid w = (Abort 404, w) \<and> delete_course ss cid w = (Abort 404, w))"
  using assms
  by (auto simp: edit_course_def delete_course_def teacher_required_pass get_course_absent)

theorem course_ops_owner_only_witness:
  "edit_course POST [''title'' \<mapsto> ''Mine'', ''description'' \<mapsto> ''Taken''] (session_of bob) 1 school
     = (Redirect [''Not allowed''] ''teacher_courses'' None, school)
   \<and> delete_course (session_of bob) 1 school
     = (Redirect [''Not allowed''] ''teacher_courses'' None, school)
   \<and> edit_course POST [''title'' \<mapsto> ''Mine'', ''description'' \<mapsto> ''Taken''] (session_of bob) 7 school
     = (Abort 404, school)
   \<and> delete_course (session_of bob) 7 school = (Abort 404, school)"
proof -
  have s: "sess_user_id (session_of bob) = Some 2" "(2::int) \<noteq> 0"
    "sess_user_role (session_of bob) = Some ''teacher''"
    by (simp_all add: sample_defs)
  have c1: "get_course (db school) 1 = Inr (Some algebra) \<and> course_teacher_id algebra \<noteq> 2"
    by (simp add: get_course_def sample_defs)
  have c7: "sqlite_int 7 \<and> 7 \<notin> course_id ` set (courses (db school))"
    by (simp add: sample_defs)
  from course_ops_owner_only [OF s, of school 1] c1
       course_ops_owner_only [OF s, of school 7] c7
  show ?thesis by blast
qed

section \<open>Enrollment\<close>

text \<open>
  For a number in the URL that is no 64-bit key, \<open>enroll\<close> ends in the driver's
  \<open>OverflowError\<close> and writes nothing.
\<close>

lemma enroll_overflow:
  assumes "sess_user_id ss = Some s" and "s \<noteq> 0" and "sess_user_role ss = Some ''student''"
    and "\<not> sqlite_int c"
  shows "enroll ss c w = (Crash OverflowError, w)"
  using assms by (simp add: enroll_def login_required_pass find_enrollment_def)

text \<open>
  C4. For a logged-in student \<open>s\<close> and any course id \<open>c\<close> (both keys of the database,
  signed 64-bit integers), in a state that holds at most one enrollment row of the pair
  (the uniqueness the ledger keeps): the first \<open>enroll\<close> answers the redirect to the
  course list, the second one answers the same redirect, no error, and returns the
  state it was given; afterwards the table holds exactly one row of \<open>(s, c)\<close>.
\<close>

theorem enroll_twice_one_row:
  assumes "sess_user_id ss = Some s" and "s \<noteq> 0" and "sess_user_role ss = Some ''student''"
    and "sqlite_int s" and "sqlite_int c"
    and "length (filter (\<lambda>e. enrollment_student_id e = s \<and> enrollment_course_id e = c)
                   (enrollments (db w))) \<le> 1"
  shows "fst (enroll ss c w) = Redirect [] ''all_courses'' None
       \<and> enroll ss c (snd (enroll ss c w)) = (Redirect [] ''all_courses'' None, snd (enroll ss c w))
       \<and> length (filter (\<lambda>e. enrollment_student_id e = s \<and> enrollment_course_id e = c)
                   (enrollments (db (snd (enroll ss c (snd (enroll ss c w))))))) = 1"
proof (cases "find (\<lambda>e. enrollment_student_id e = s \<and> enrollment_course_id e = c)
                (enrollments (db w))")
  case None
  then have "filter (\<lambda>e. enrollment_student_id e = s \<and> enrollment_course_id e = c)
               (enrollments (db w)) = []"
    by (rule find_None_filter)
  with None assms show ?thesis
    by (simp add: enroll_def login_required_pass find_enrollment_def insert_enrollment_def
        find_append)
next
  case (Some e)
  then have "filter (\<lambda>e. enrollment_student_id e = s \<and> enrollment_course_id e = c)
               (enrollments (db w)) \<noteq> []"
    by (rule find_Some_filter)
  then have "length (filter (\<lambda>e. enrollment_student_id e = s \<and> enrollment_course_id e = c)
               (enrollments (db w))) \<noteq> 0"
    by simp
  with assms(6) have "length (filter (\<lambda>e. enrollment_student_id e = s \<and> enrollment_course_id e = c)
               (enrollments (db w))) = 1"
    by linarith
  with Some assms show ?thesis
    by (simp add: enroll_def login_required_pass find_enrollment_def)
qed

theorem enroll_twice_one_row_witness:
  "fst (enroll (session_of carol) 5 school) = Redirect [] ''all_courses'' None
   \<and> enroll (session_of carol) 5 (snd (enroll (session_of carol) 5 school))
       = (Redirect [] ''all_courses'' None, snd (enroll (session_of carol) 5 school))
   \<and> length (filter (\<lambda>e. enrollment_student_id e = 3 \<and> enrollment_course_id e = 5)
       (enrollments (db (snd (enroll (session_of carol) 5
                                (snd (enroll (session_of carol) 5 school))))))) = 1"
  by (rule enroll_twice_one_row [where s = 3]) (simp_all add: sample_defs)

text \<open>
  C7 as the specification states it (an \<open>enroll\<close> on a course id that no course has
  fails with 404 and inserts nothing) does not hold: the student of the sample enrolls
  in course 99, which does not exist, is redirected to the course list, and the table
  has a new row for course 99.
\<close>

theorem enroll_missing_course_counterexample:
  "get_course (db school) 99 = Inr None
   \<and> fst (enroll (session_of carol) 99 school) = Redirect [] ''all_courses'' None
   \<and> enrollments (db (snd (enroll (session_of carol) 99 school)))
       = enrollments (db school)
         @ [\<lparr>enrollment_id = 2, enrollment_student_id = 3, enrollment_course_id = 99\<rparr>]"
  by (simp add: enroll_def login_required_def no_user_id_def find_enrollment_def
      insert_enrollment_def next_id_def get_course_def sample_defs)

text \<open>
  C7, amended. \<open>enroll\<close> never looks the course up. For a logged-in student \<open>s\<close> and
  a course id \<open>c\<close> (both signed 64-bit keys) that no row of the course table has, it
  answers the redirect to the course list, and afterwards an enrollment row of
  \<open>(s, c)\<close> exists; when none existed before, the table is the old one followed by
  exactly one new row of \<open>(s, c)\<close>.
\<close>

theorem enroll_ignores_missing_course:
  assumes "sess_user_id ss = Some s" and "s \<noteq> 0" and "sess_user_role ss = Some ''student''"
    and "sqlite_int s" and "sqlite_int c"
    and "c \<notin> course_id ` set (courses (db w))"
  shows "fst (enroll ss c w) = Redirect [] ''all_courses'' None
       \<and> filter (\<lambda>e. enrollment_student_id e = s \<and> enrollment_course_id e = c)
            (enrollments (db (snd (enroll ss c w)))) \<noteq> []
       \<and> (filter (\<lambda>e. enrollment_student_id e = s \<and> enrollment_course_id e = c)
            (enrollments (db w)) = [] \<longrightarrow>
            enrollments (db (snd (enroll ss c w)))
              = enrollments (db w)
                @ [\<lparr>enrollment_id = next_id (map enrollment_id (enrollments (db w))),
                    enrollment_student_id = s, enrollment_course_id = c\<rparr>])"
proof (cases "find (\<lambda>e. enrollment_student_id e = s \<and> enrollment_course_id e = c)
                (enrollments (db w))")
  case None
  with assms show ?thesis
    by (simp add: enroll_def login_required_pass find_enrollment_def insert_enrollment_def)
next
  case (Some e)
  then have "filter (\<lambda>e. enrollment_student_id e = s \<and> enrollment_course_id e = c)
               (enrollments (db w)) \<noteq> []"
    by (rule find_Some_filter)
  with Some assms show ?thesis
    by (simp add: enroll_def login_required_pass find_enrollment_def)
qed

theorem enroll_ignores_missing_course_witness:
  "fst (enroll (session_of carol) 99 school) = Redirect [] ''all_courses'' None
   \<and> filter (\<lambda>e. enrollment_student_id e = 3 \<and> enrollment_course_id e = 99)
        (enrollments (db (snd (enroll (session_of carol) 99 school)))) \<noteq> []
   \<and> enrollments (db (snd (enroll (session_of carol) 99 school)))
       = enrollments (db school)
         @ [\<lparr>enrollment_id = next_id (map enrollment_id (enrollments (db school))),
             enrollment_student_id = 3, enrollment_course_id = 99\<rparr>]"
proof -
  have s: "sess_user_id (session_of carol) = Some 3" "(3::int) \<noteq> 0"
    "sess_user_role (session_of carol) = Some ''student''" "sqlite_int 3" "sqlite_int 99"
    by (simp_all add: sample_defs)
  have c: "99 \<notin> course_id ` set (courses (db school))"
    by (simp add: sample_defs)
  have e: "filter (\<lambda>e. enrollment_student_id e = 3 \<and> enrollment_course_id e = 99)
             (enrollments (db school)) = []"
    by (simp add: sample_defs)
  from enroll_ignores_missing_course [OF s c] e show ?thesis by blast
qed

section \<open>Course detail\<close>

text \<open>
  The part of the roster rule that the handler keeps: a caller whose role is not
  \<open>teacher\<close>, hence every student, is never handed a roster.
\<close>

lemma course_detail_roster_needs_teacher:
  assumes "sess_user_role ss \<noteq> Some ''teacher''"
    and "course_detail ss cid w = Render (CourseDetailPage c enrolled students)"
  shows "students = []"
  using assms
  by (auto simp: course_detail_def login_required_def split: option.splits sum.splits if_splits)

text \<open>
  C2 (the roster goes to the owning teacher only) at the sample: the second teacher,
  who does not own course 1, asks for its detail page and is handed its enrolled
  student.
\<close>

theorem course_detail_roster_non_owner:
  "sess_user_role (session_of bob) = Some ''teacher''
   \<and> sess_user_id (session_of bob) \<noteq> Some (course_teacher_id algebra)
   \<and> get_course (db school) 1 = Inr (Some algebra)
   \<and> course_detail (session_of bob) 1 school
       = Render (CourseDetailPage algebra False [Some carol])"
  by (simp add: course_detail_def login_required_def no_user_id_def get_course_def
      get_user_def course_enrollments_def sample_defs)

section \<open>Deleting a course\<close>

text \<open>
  Whatever its outcome, \<open>delete_course\<close> leaves every lesson, file row, enrollment and
  stored file where it was: the only table it can change is the course table.
\<close>

lemma delete_course_frame:
  "lessons (db (snd (delete_course ss cid w))) = lessons (db w)
   \<and> lesson_files (db (snd (delete_course ss cid w))) = lesson_files (db w)
   \<and> enrollments (db (snd (delete_course ss cid w))) = enrollments (db w)
   \<and> uploads (snd (delete_course ss cid w)) = uploads w"
  by (auto simp: delete_course_def session_delete_course_def split: option.splits sum.splits)

text \<open>
  C1 (the cascade of a course deletion) at the sample: the owning teacher deletes her
  course, which has two lessons, three file rows, stored bytes and one enrolled student.
  The request ends in an \<open>IntegrityError\<close>; the lessons, the file rows, the enrollment
  and the bytes are all still there, and the student's course list still shows the
  course.
\<close>

theorem delete_course_keeps_children:
  "get_course (db school) 1 = Inr (Some algebra)
   \<and> sess_user_id (session_of alice) = Some (course_teacher_id algebra)
   \<and> fst (delete_course (session_of alice) 1 school) = Crash IntegrityError
   \<and> lessons (db (snd (delete_course (session_of alice) 1 school))) = lessons (db school)
   \<and> lesson_files (db (snd (delete_course (session_of alice) 1 school)))
       = lesson_files (db school)
   \<and> enrollments (db (snd (delete_course (session_of alice) 1 school)))
       = enrollments (db school)
   \<and> uploads (snd (delete_course (session_of alice) 1 school)) ''notes.pdf'' = Some ''PDF-bytes''
   \<and> all_courses (session_of carol) (snd (delete_course (session_of alice) 1 school))
       = Render (AllCoursesPage [algebra] [1])"
  by (simp add: delete_course_def teacher_required_def no_user_id_def get_course_def
      session_delete_course_def course_lessons_def course_enrollments_def
      all_courses_def login_required_def enrollments_of_student_def sample_defs)

section \<open>Adding a lesson\<close>

text \<open>
  C3 (a lesson without text) at the sample: the owning teacher posts a title and a
  file and leaves the \<open>content\<close> field out. The insert violates the NOT NULL constraint
  of \<open>Lesson.content\<close>: the request ends in an \<open>IntegrityError\<close> and nothing is stored.
\<close>

theorem add_lesson_without_content_crashes:
  "get_course (db school) 1 = Inr (Some algebra)
   \<and> sess_user_id (session_of alice) = Some (course_teacher_id algebra)
   \<and> add_lesson plain_env POST [''title'' \<mapsto> ''Slides only''] (Some (''slides.pdf'', ''PDF''))
        (session_of alice) 1 school
       = (Crash IntegrityError, school)"
  by (simp add: add_lesson_def teacher_required_def no_user_id_def get_course_def
      insert_lesson_def sample_defs)

text \<open>
  C9. \<open>add_lesson\<close> is not atomic. For the owning teacher posting a title, a content
  and a file with a name: whatever happens to the file, the lesson table afterwards is
  the old one followed by the new lesson. When the write of the file is refused, the
  request ends in that exception with the lesson row stored, no file row added and the
  folder untouched. When the file is written and the database then refuses the file
  row, the request ends in that exception with the lesson row stored, no file row
  added and the bytes left in the folder.
\<close>

theorem add_lesson_not_atomic:
  assumes "sess_user_id ss = Some t" and "t \<noteq> 0" and "sess_user_role ss = Some ''teacher''"
    and "get_course (db w) cid = Inr (Some c)" and "course_teacher_id c = t"
    and "form ''title'' = Some title" and "form ''content'' = Some content"
    and "fname \<noteq> []"
  shows "lessons (db (snd (add_lesson ev POST form (Some (fname, bytes)) ss cid w)))
           = lessons (db w)
             @ [\<lparr>lesson_id = next_id (map lesson_id (lessons (db w))), lesson_title = title,
                 lesson_content = Some content, lesson_course_id = course_id c\<rparr>]
       \<and> (write_refused ev (secure_filename ev fname) \<longrightarrow>
            fst (add_lesson ev POST form (Some (fname, bytes)) ss cid w) = Crash OSError
          \<and> lesson_files (db (snd (add_lesson ev POST form (Some (fname, bytes)) ss cid w)))
              = lesson_files (db w)
          \<and> uploads (snd (add_lesson ev POST form (Some (fname, bytes)) ss cid w)) = uploads w)
       \<and> (\<not> write_refused ev (secure_filename ev fname)
            \<and> file_row_refused ev (secure_filename ev fname)
                 (next_id (map lesson_id (lessons (db w)))) \<longrightarrow>
            fst (add_lesson ev POST form (Some (fname, bytes)) ss cid w) = Crash OperationalError
          \<and> lesson_files (db (snd (add_lesson ev POST form (Some (fname, bytes)) ss cid w)))
              = lesson_files (db w)
          \<and> uploads (snd (add_lesson ev POST form (Some (fname, bytes)) ss cid w))
              = (uploads w)(secure_filename ev fname \<mapsto> bytes))"
  using assms
  by (simp add: add_lesson_def teacher_required_pass insert_lesson_def file_save_def
      insert_lesson_file_def Let_def)

theorem add_lesson_not_atomic_witness:
  "lessons (db (snd (add_lesson (plain_env\<lparr>secure_filename := (\<lambda>n. [])\<rparr>) POST
       [''title'' \<mapsto> ''Fields'', ''content'' \<mapsto> ''Text''] (Some (''..'', ''PDF''))
       (session_of alice) 1 school)))
     = lessons (db school)
       @ [\<lparr>lesson_id = next_id (map lesson_id (lessons (db school))), lesson_title = ''Fields'',
           lesson_content = Some ''Text'', lesson_course_id = course_id algebra\<rparr>]
   \<and> fst (add_lesson (plain_env\<lparr>secure_filename := (\<lambda>n. [])\<rparr>) POST
       [''title'' \<mapsto> ''Fields'', ''content'' \<mapsto> ''Text''] (Some (''..'', ''PDF''))
       (session_of alice) 1 school) = Crash OSError
   \<and> lessons (db (snd (add_lesson (plain_env\<lparr>file_row_refused := (\<lambda>n i. True)\<rparr>) POST
       [''title'' \<mapsto> ''Fields'', ''content'' \<mapsto> ''Text''] (Some (''f.pdf'', ''PDF''))
       (session_of alice) 1 school)))
     = lessons (db school)
       @ [\<lparr>lesson_id = next_id (map lesson_id (lessons (db school))), lesson_title = ''Fields'',
           lesson_content = Some ''Text'', lesson_course_id = course_id algebra\<rparr>]
   \<and> fst (add_lesson (plain_env\<lparr>file_row_refused := (\<lambda>n i. True)\<rparr>) POST
       [''title'' \<mapsto> ''Fields'', ''content'' \<mapsto> ''Text''] (Some (''f.pdf'', ''PDF''))
       (session_of alice) 1 school) = Crash OperationalError
   \<and> lesson_files (db (snd (add_lesson (plain_env\<lparr>file_row_refused := (\<lambda>n i. True)\<rparr>) POST
       [''title'' \<mapsto> ''Fields'', ''content'' \<mapsto> ''Text''] (Some (''f.pdf'', ''PDF''))
       (session_of alice) 1 school)))
     = lesson_files (db school)"
proof -
  let ?form = "[''title'' \<mapsto> ''Fields'', ''content'' \<mapsto> ''Text'']"
  let ?e1 = "plain_env\<lparr>secure_filename := (\<lambda>n. [])\<rparr>"
  let ?e2 = "plain_env\<lparr>file_row_refused := (\<lambda>n i. True)\<rparr>"
  have a: "sess_user_id (session_of alice) = Some 1" "(1::int) \<noteq> 0"
    "sess_user_role (session_of alice) = Some ''teacher''"
    by (simp_all add: sample_defs)
  have c: "get_course (db school) 1 = Inr (Some algebra)" "course_teacher_id algebra = 1"
    by (simp_all add: get_course_def sample_defs)
  have f: "?form ''title'' = Some ''Fields''" "?form ''content'' = Some ''Text''"
    by simp_all
  have n1: "''..'' \<noteq> []" and n2: "''f.pdf'' \<noteq> []"
    by simp_all
  have r1: "write_refused ?e1 (secure_filename ?e1 ''..'')"
    by (simp add: sample_defs)
  have r2: "\<not> write_refused ?e2 (secure_filename ?e2 ''f.pdf'')
            \<and> file_row_refused ?e2 (secure_filename ?e2 ''f.pdf'')
                (next_id (map lesson_id (lessons (db school))))"
    by (simp add: sample_defs)
  from add_lesson_not_atomic [OF a c f n1, of ?e1 "''PDF''"] r1
       add_lesson_not_atomic [OF a c f n2, of ?e2 "''PDF''"] r2
  show ?thesis by blast
qed

section \<open>Deleting a lesson\<close>

lemma remove_physical_files_db [simp]: "db (remove_physical_files fs w) = db w"
  by (induction fs arbitrary: w) (simp_all add: os_remove_def)

lemma remove_physical_files_uploads:
  "uploads (remove_physical_files fs w) n
     = (if n \<in> lesson_file_filename ` set fs then None else uploads w n)"
  by (induction fs arbitrary: w) (auto simp: os_remove_def)

lemma remove_physical_files_effects:
  "\<exists>ns. effects (remove_physical_files fs w) = effects w @ map RemoveBytes ns
        \<and> distinct ns
        \<and> set ns = {n \<in> lesson_file_filename ` set fs. uploads w n \<noteq> None}"
proof (induction fs arbitrary: w)
  case Nil
  show ?case by simp
next
  case (Cons f fs)
  let ?n = "lesson_file_filename f"
  show ?case
  proof (cases "uploads w ?n = None")
    case True
    from Cons.IH [of w] obtain ns where
      ns: "effects (remove_physical_files fs w) = effects w @ map RemoveBytes ns"
          "distinct ns"
          "set ns = {n \<in> lesson_file_filename ` set fs. uploads w n \<noteq> None}"
      by blast
    from ns(3) True
    have "set ns = {n \<in> lesson_file_filename ` set (f # fs). uploads w n \<noteq> None}"
      by auto
    with ns(1,2) True show ?thesis by auto
  next
    case False
    from Cons.IH [of "os_remove ?n w"] obtain ns where
      ns: "effects (remove_physical_files fs (os_remove ?n w))
             = effects (os_remove ?n w) @ map RemoveBytes ns"
          "distinct ns"
          "set ns = {n \<in> lesson_file_filename ` set fs. uploads (os_remove ?n w) n \<noteq> None}"
      by blast
    from ns(3) have notin: "?n \<notin> set ns"
      by (simp add: os_remove_def)
    from ns(3) False
    have s: "set (?n # ns) = {n \<in> lesson_file_filename ` set (f # fs). uploads w n \<noteq> None}"
      by (auto simp: os_remove_def split: if_splits)
    from ns(1) False
    have e: "effects (remove_physical_files (f # fs) w) = effects w @ map RemoveBytes (?n # ns)"
      by (simp add: os_remove_def)
    from ns(2) notin have d: "distinct (?n # ns)" by simp
    from e d s show ?thesis by blast
  qed
qed

lemma fold_sql_delete_file_row:
  "fold sql_delete_file_row ids w
     = w\<lparr>db := (db w)\<lparr>lesson_files :=
                      filter (\<lambda>f. lesson_file_id f \<notin> set ids) (lesson_files (db w))\<rparr>,
         effects := effects w @ map DeleteFileRow ids\<rparr>"
proof (induction ids arbitrary: w)
  case Nil
  show ?case by simp
next
  case (Cons i ids)
  have "fold sql_delete_file_row (i # ids) w
          = fold sql_delete_file_row ids (sql_delete_file_row i w)"
    by simp
  also have "\<dots> = (sql_delete_file_row i w)
       \<lparr>db := (db (sql_delete_file_row i w))\<lparr>lesson_files :=
                 filter (\<lambda>f. lesson_file_id f \<notin> set ids)
                   (lesson_files (db (sql_delete_file_row i w)))\<rparr>,
        effects := effects (sql_delete_file_row i w) @ map DeleteFileRow ids\<rparr>"
    by (rule Cons.IH)
  also have "\<dots> = w\<lparr>db := (db w)\<lparr>lesson_files :=
                      filter (\<lambda>f. lesson_file_id f \<notin> set (i # ids)) (lesson_files (db w))\<rparr>,
         effects := effects w @ map DeleteFileRow (i # ids)\<rparr>"
    by (simp add: sql_delete_file_row_def conj_commute)
  finally show ?case .
qed

lemma session_delete_lesson_eq:
  "session_delete_lesson l w
     = w\<lparr>db := (db w)\<lparr>lesson_files :=
                      filter (\<lambda>f. lesson_file_lesson_id f \<noteq> lesson_id l
                                  \<and> lesson_file_id f \<notin> lesson_file_id ` set (lesson_files_of (db w) l))
                        (lesson_files (db w)),
                    lessons := filter (\<lambda>x. lesson_id x \<noteq> lesson_id l) (lessons (db w))\<rparr>,
         effects := effects w @ map DeleteFileRow (map lesson_file_id (lesson_files_of (db w) l))
                    @ [DeleteLessonRow (lesson_id l)]\<rparr>"
proof -
  have "filter (\<lambda>f. lesson_file_id f \<notin> lesson_file_id ` set (lesson_files_of (db w) l))
          (lesson_files (db w))
        = filter (\<lambda>f. lesson_file_lesson_id f \<noteq> lesson_id l
                      \<and> lesson_file_id f \<notin> lesson_file_id ` set (lesson_files_of (db w) l))
            (lesson_files (db w))"
    by (rule filter_cong) (auto simp: lesson_files_of_def)
  then show ?thesis
    by (simp add: session_delete_lesson_def fold_sql_delete_file_row sql_delete_lesson_row_def)
qed

lemma delete_lesson_owner:
  assumes "sess_user_id ss = Some t" and "t \<noteq> 0" and "sess_user_role ss = Some ''teacher''"
    and "get_lesson (db w) lid = Inr (Some l)"
    and "get_course (db w) (lesson_course_id l) = Inr (Some c)" and "course_teacher_id c = t"
  shows "delete_lesson ss lid w
           = (Redirect [''Lesson deleted successfully''] ''course_detail'' (Some (course_id c)),
              session_delete_lesson l (remove_physical_files (lesson_files_of (db w) l) w))"
  using assms by (simp add: delete_lesson_def teacher_required_pass)

text \<open>
  C6. For the owning teacher, \<open>delete_lesson\<close> answers the success redirect, and what
  it did, in order, is: one removal of bytes for each attached file name that the
  folder held (no name twice, none for a name the folder did not hold), then the
  deletion of every file row of the lesson, then the deletion of the lesson row.
  Afterwards no attached name has bytes, the lesson has no file rows and the lesson row
  is gone. Nothing is assumed about the folder: bytes that are already absent are
  skipped and the rows are deleted all the same.
\<close>

theorem delete_lesson_bytes_then_rows:
  assumes "sess_user_id ss = Some t" and "t \<noteq> 0" and "sess_user_role ss = Some ''teacher''"
    and "get_lesson (db w) lid = Inr (Some l)"
    and "get_course (db w) (lesson_course_id l) = Inr (Some c)" and "course_teacher_id c = t"
  shows "fst (delete_lesson ss lid w)
           = Redirect [''Lesson deleted successfully''] ''course_detail'' (Some (course_id c))
       \<and> (\<exists>ns. effects (snd (delete_lesson ss lid w))
                  = effects w @ map RemoveBytes ns
                    @ map DeleteFileRow (map lesson_file_id (lesson_files_of (db w) l))
                    @ [DeleteLessonRow lid]
              \<and> distinct ns
              \<and> set ns = {n \<in> lesson_file_filename ` set (lesson_files_of (db w) l).
                            uploads w n \<noteq> None})
       \<and> (\<forall>f \<in> set (lesson_files_of (db w) l).
             uploads (snd (delete_lesson ss lid w)) (lesson_file_filename f) = None)
       \<and> lesson_files_of (db (snd (delete_lesson ss lid w))) l = []
       \<and> get_lesson (db (snd (delete_lesson ss lid w))) lid = Inr None"
proof -
  let ?fs = "lesson_files_of (db w) l"
  let ?w1 = "remove_physical_files ?fs w"
  have lid: "lesson_id l = lid" "sqlite_int lid"
    using assms(4) by (auto dest: get_lessonD)
  have run: "delete_lesson ss lid w
      = (Redirect [''Lesson deleted successfully''] ''course_detail'' (Some (course_id c)),
         session_delete_lesson l ?w1)"
    using assms by (rule delete_lesson_owner)
  obtain ns where ns: "effects ?w1 = effects w @ map RemoveBytes ns" "distinct ns"
      "set ns = {n \<in> lesson_file_filename ` set ?fs. uploads w n \<noteq> None}"
    using remove_physical_files_effects [of ?fs w] by blast
  have fs1: "lesson_files_of (db ?w1) l = ?fs"
    by (simp add: lesson_files_of_def)
  have eff: "effects (session_delete_lesson l ?w1)
      = effects w @ map RemoveBytes ns @ map DeleteFileRow (map lesson_file_id ?fs)
        @ [DeleteLessonRow lid]"
    by (simp add: session_delete_lesson_eq fs1 ns(1) lid)
  have up: "\<forall>f \<in> set ?fs. uploads (session_delete_lesson l ?w1) (lesson_file_filename f) = None"
    by (simp add: session_delete_lesson_eq remove_physical_files_uploads)
  have rows: "lesson_files_of (db (session_delete_lesson l ?w1)) l = []"
    by (auto simp: session_delete_lesson_eq lesson_files_of_def filter_empty_conv)
  have row: "get_lesson (db (session_delete_lesson l ?w1)) lid = Inr None"
    by (simp add: session_delete_lesson_eq get_lesson_def lid find_filter_None)
  from eff ns(2,3) have "\<exists>ns. effects (session_delete_lesson l ?w1)
                  = effects w @ map RemoveBytes ns
                    @ map DeleteFileRow (map lesson_file_id ?fs) @ [DeleteLessonRow lid]
              \<and> distinct ns
              \<and> set ns = {n \<in> lesson_file_filename ` set ?fs. uploads w n \<noteq> None}"
    by blast
  with up rows row show ?thesis
    unfolding run by simp
qed

theorem delete_lesson_bytes_then_rows_witness:
  "fst (delete_lesson (session_of alice) 1 school)
     = Redirect [''Lesson deleted successfully''] ''course_detail'' (Some 1)
   \<and> uploads school ''gone.pdf'' = None
   \<and> effects (snd (delete_lesson (session_of alice) 1 school))
       = [RemoveBytes ''notes.pdf'', DeleteFileRow 1, DeleteFileRow 3, DeleteLessonRow 1]
   \<and> uploads (snd (delete_lesson (session_of alice) 1 school)) ''notes.pdf'' = None
   \<and> lesson_files_of (db (snd (delete_lesson (session_of alice) 1 school)))
        \<lparr>lesson_id = 1, lesson_title = ''Intro'', lesson_content = Some ''Welcome'',
         lesson_course_id = 1\<rparr> = []
   \<and> get_lesson (db (snd (delete_lesson (session_of alice) 1 school))) 1 = Inr None"
proof -
  let ?l = "\<lparr>lesson_id = 1, lesson_title = ''Intro'', lesson_content = Some ''Welcome'',
             lesson_course_id = 1\<rparr>"
  have a: "sess_user_id (session_of alice) = Some 1" "(1::int) \<noteq> 0"
    "sess_user_role (session_of alice) = Some ''teacher''"
    by (simp_all add: sample_defs)
  have l: "get_lesson (db school) 1 = Inr (Some ?l)"
    by (simp add: get_lesson_def sample_defs)
  have c: "get_course (db school) (lesson_course_id ?l) = Inr (Some algebra)"
    "course_teacher_id algebra = 1"
    by (simp_all add: get_course_def sample_defs)
  have e: "effects (snd (delete_lesson (session_of alice) 1 school))
       = [RemoveBytes ''notes.pdf'', DeleteFileRow 1, DeleteFileRow 3, DeleteLessonRow 1]"
    by (simp add: delete_lesson_def teacher_required_def no_user_id_def get_lesson_def
        get_course_def lesson_files_of_def session_delete_lesson_def os_remove_def
        sql_delete_file_row_def sql_delete_lesson_row_def sample_defs)
  have f: "\<lparr>lesson_file_id = 1, lesson_file_filename = ''notes.pdf'', lesson_file_lesson_id = 1\<rparr>
             \<in> set (lesson_files_of (db school) ?l)"
    by (simp add: lesson_files_of_def sample_defs)
  have g: "uploads school ''gone.pdf'' = None"
    by (simp add: sample_defs)
  note r = delete_lesson_bytes_then_rows [OF a l c]
  from r have p1: "fst (delete_lesson (session_of alice) 1 school)
      = Redirect [''Lesson deleted successfully''] ''course_detail'' (Some (course_id algebra))"
    by blast
  from r f have p2: "uploads (snd (delete_lesson (session_of alice) 1 school))
      (lesson_file_filename
         \<lparr>lesson_file_id = 1, lesson_file_filename = ''notes.pdf'', lesson_file_lesson_id = 1\<rparr>)
      = None"
    by blast
  from r have p3: "lesson_files_of (db (snd (delete_lesson (session_of alice) 1 school))) ?l = []"
    by blast
  from r have p4: "get_lesson (db (snd (delete_lesson (session_of alice) 1 school))) 1 = Inr None"
    by blast
  from p1 p2 p3 p4 e g show ?thesis
    by (simp add: algebra_def)
qed

text \<open>
  C10. Stored files are keyed by name only. When the owning teacher deletes a lesson
  one of whose attachments has the same file name as a file row \<open>g\<close> of another lesson
  (file rows have distinct keys), then afterwards the row \<open>g\<close> and its lesson are still
  in the database, the folder holds no bytes under that name, and a download of the
  name by any logged-in user answers 404.
\<close>

theorem delete_lesson_shared_filename:
  assumes "sess_user_id ss = Some t" and "t \<noteq> 0" and "sess_user_role ss = Some ''teacher''"
    and "get_lesson (db w) lid = Inr (Some l)"
    and "get_course (db w) (lesson_course_id l) = Inr (Some c)" and "course_teacher_id c = t"
    and "f \<in> set (lesson_files_of (db w) l)"
    and "g \<in> set (lesson_files (db w))" and "lesson_file_lesson_id g \<noteq> lid"
    and "lesson_file_filename g = lesson_file_filename f"
    and "distinct (map lesson_file_id (lesson_files (db w)))"
    and "sess_user_id ss' = Some u" and "u \<noteq> 0"
  shows "g \<in> set (lesson_files (db (snd (delete_lesson ss lid w))))
       \<and> get_lesson (db (snd (delete_lesson ss lid w))) (lesson_file_lesson_id g)
           = get_lesson (db w) (lesson_file_lesson_id g)
       \<and> uploads (snd (delete_lesson ss lid w)) (lesson_file_filename g) = None
       \<and> uploaded_file ss' (lesson_file_filename g) (snd (delete_lesson ss lid w)) = Abort 404"
proof -
  let ?fs = "lesson_files_of (db w) l"
  let ?w1 = "remove_physical_files ?fs w"
  let ?w2 = "session_delete_lesson l ?w1"
  have lid: "lesson_id l = lid" "sqlite_int lid"
    using assms(4) by (auto dest: get_lessonD)
  have run: "snd (delete_lesson ss lid w) = ?w2"
    using delete_lesson_owner [OF assms(1-6)] by simp
  have fs1: "lesson_files_of (db ?w1) l = ?fs"
    by (simp add: lesson_files_of_def)
  have inj: "inj_on lesson_file_id (set (lesson_files (db w)))"
    using assms(11) by (simp add: distinct_map)
  have "lesson_file_id g \<notin> lesson_file_id ` set ?fs"
  proof
    assume "lesson_file_id g \<in> lesson_file_id ` set ?fs"
    then obtain h where h: "h \<in> set ?fs" "lesson_file_id g = lesson_file_id h" by blast
    from h(1) have "h \<in> set (lesson_files (db w))" "lesson_file_lesson_id h = lesson_id l"
      by (simp_all add: lesson_files_of_def)
    with inj assms(8) h(2) have "g = h" by (auto dest: inj_onD)
    with \<open>lesson_file_lesson_id h = lesson_id l\<close> assms(9) lid show False by simp
  qed
  with assms(8,9) lid have keep: "g \<in> set (lesson_files (db ?w2))"
    by (simp add: session_delete_lesson_eq fs1)
  have other: "get_lesson (db ?w2) (lesson_file_lesson_id g)
                 = get_lesson (db w) (lesson_file_lesson_id g)"
  proof -
    have "find (\<lambda>x. lesson_id x = k) (filter (\<lambda>x. lesson_id x \<noteq> j) xs)
            = find (\<lambda>x. lesson_id x = k) xs" if "k \<noteq> j" for k j :: int and xs :: "lesson list"
      using that by (induction xs) auto
    with assms(9) lid show ?thesis
      by (simp add: session_delete_lesson_eq get_lesson_def)
  qed
  from assms(7,10) have gone: "uploads ?w2 (lesson_file_filename g) = None"
    by (simp add: session_delete_lesson_eq remove_physical_files_uploads)
  then have "uploaded_file ss' (lesson_file_filename g) ?w2 = Abort 404"
    using assms(12,13) by (simp add: uploaded_file_def login_required_pass)
  with keep other gone show ?thesis
    unfolding run by simp
qed

theorem delete_lesson_shared_filename_witness:
  "\<lparr>lesson_file_id = 2, lesson_file_filename = ''notes.pdf'', lesson_file_lesson_id = 2\<rparr>
     \<in> set (lesson_files (db (snd (delete_lesson (session_of alice) 1 school))))
   \<and> get_lesson (db (snd (delete_lesson (session_of alice) 1 school))) 2
       = get_lesson (db school) 2
   \<and> uploaded_file (session_of carol) ''notes.pdf'' school = SendFile ''PDF-bytes''
   \<and> uploads (snd (delete_lesson (session_of alice) 1 school)) ''notes.pdf'' = None
   \<and> uploaded_file (session_of carol) ''notes.pdf''
        (snd (delete_lesson (session_of alice) 1 school)) = Abort 404"
proof -
  let ?l = "\<lparr>lesson_id = 1, lesson_title = ''Intro'', lesson_content = Some ''Welcome'',
             lesson_course_id = 1\<rparr>"
  let ?f = "\<lparr>lesson_file_id = 1, lesson_file_filename = ''notes.pdf'', lesson_file_lesson_id = 1\<rparr>"
  let ?g = "\<lparr>lesson_file_id = 2, lesson_file_filename = ''notes.pdf'', lesson_file_lesson_id = 2\<rparr>"
  have a: "sess_user_id (session_of alice) = Some 1" "(1::int) \<noteq> 0"
    "sess_user_role (session_of alice) = Some ''teacher''"
    by (simp_all add: sample_defs)
  have l: "get_lesson (db school) 1 = Inr (Some ?l)"
    by (simp add: get_lesson_def sample_defs)
  have c: "get_course (db school) (lesson_course_id ?l) = Inr (Some algebra)"
    "course_teacher_id algebra = 1"
    by (simp_all add: get_course_def sample_defs)
  have f: "?f \<in> set (lesson_files_of (db school) ?l)"
    by (simp add: lesson_files_of_def sample_defs)
  have g: "?g \<in> set (lesson_files (db school))" "lesson_file_lesson_id ?g \<noteq> 1"
    "lesson_file_filename ?g = lesson_file_filename ?f"
    by (simp_all add: sample_defs)
  have d: "distinct (map lesson_file_id (lesson_files (db school)))"
    by (simp add: sample_defs)
  have s: "sess_user_id (session_of carol) = Some 3" "(3::int) \<noteq> 0"
    by (simp_all add: sample_defs)
  have before: "uploaded_file (session_of carol) ''notes.pdf'' school = SendFile ''PDF-bytes''"
    by (simp add: uploaded_file_def login_required_def no_user_id_def sample_defs)
  from delete_lesson_shared_filename [OF a l c f g d s] before show ?thesis
    by simp
qed

end
